theory Spec2Isabelle
  imports Complex_Main "HOL-Library.Sublist"
begin

section \<open>Strings: the playback path and the server-relative video path\<close>

text \<open>
  \<^verbatim>\<open>String.prototype.replace(searchString, replaceString)\<close> with a string pattern
  replaces the first occurrence of the pattern only, scanning from the left. The
  replacement used by the component is the empty string, so none of the \<^verbatim>\<open>$\<close>
  replacement patterns of JavaScript plays a role.
\<close>

fun replace_first :: "string \<Rightarrow> string \<Rightarrow> string \<Rightarrow> string" where
  "replace_first pat rep [] = (if pat = [] then rep else [])"
| "replace_first pat rep (c # cs) =
     (if prefix pat (c # cs) then rep @ drop (length pat) (c # cs)
      else c # replace_first pat rep cs)"

text \<open>
  \<^verbatim>\<open>App.tsx\<close>, \<^verbatim>\<open>handleEpisodeClick\<close>: the selected episode, with the playback path
  \<^verbatim>\<open>`/video/${scenarioId}/${sceneId}/${episodeId}`\<close>.
\<close>

record selected_episode =
  scenarioId :: string
  sceneId :: string
  episodeId :: string
  episodePath :: string

definition handleEpisodeClick :: "string \<Rightarrow> string \<Rightarrow> string \<Rightarrow> selected_episode" where
  "handleEpisodeClick scenario scene episode =
     \<lparr>scenarioId = scenario, sceneId = scene, episodeId = episode,
      episodePath = ''/video/'' @ scenario @ ''/'' @ scene @ ''/'' @ episode\<rparr>"

text \<open>\<^verbatim>\<open>VideoPlayer.tsx\<close>, \<^verbatim>\<open>getVideoRelativePath\<close>: \<^verbatim>\<open>episodePath.replace('/video/', '')\<close>.\<close>

definition getVideoRelativePath :: "string \<Rightarrow> string" where
  "getVideoRelativePath path = replace_first ''/video/'' '''' path"

section \<open>JavaScript values\<close>

text \<open>
  The responses of the backend reach the component as the result of
  \<^verbatim>\<open>response.json()\<close>, typed \<^verbatim>\<open>any\<close>; the component stores parts of them in the
  session unchecked. A value is therefore a parsed JSON value, or \<^verbatim>\<open>undefined\<close>
  (what reading an absent property gives). An object is the list of its properties,
  each name once, looked up by name.
\<close>

datatype json =
    JUndefined
  | JNull
  | JBool bool
  | JNum real
  | JStr string
  | JArr "json list"
  | JObj "(string \<times> json) list"

text \<open>Truthiness, as \<^verbatim>\<open>&&\<close>, \<^verbatim>\<open>||\<close>, \<^verbatim>\<open>!\<close> and \<^verbatim>\<open>if\<close> test it.\<close>

fun truthy :: "json \<Rightarrow> bool" where
  "truthy JUndefined = False"
| "truthy JNull = False"
| "truthy (JBool b) = b"
| "truthy (JNum r) = (r \<noteq> 0)"
| "truthy (JStr s) = (s \<noteq> [])"
| "truthy (JArr xs) = True"
| "truthy (JObj kvs) = True"

text \<open>
  What the engine supplies and the embedding leaves open: the decimal rendering of a
  number, and the message of the \<^verbatim>\<open>TypeError\<close> the engine throws.
\<close>

record js_engine =
  number_to_string :: "real \<Rightarrow> string"
  type_error_message :: string

text \<open>
  A thrown value, as the \<^verbatim>\<open>catch\<close> blocks look at it: an \<^verbatim>\<open>Error\<close> instance with
  its message, or anything else.
\<close>

datatype thrown = ErrorObject string | NonError

definition TypeError :: "js_engine \<Rightarrow> thrown" where
  "TypeError rt = ErrorObject (type_error_message rt)"

text \<open>
  Property reads, for the property names the component uses (none of them is defined
  on strings, numbers, booleans or arrays): \<^verbatim>\<open>v.k\<close> on a value that is neither
  \<^verbatim>\<open>null\<close> nor \<^verbatim>\<open>undefined\<close>; \<^verbatim>\<open>v?.k\<close>; and \<^verbatim>\<open>v.k\<close> on any value, which throws
  a \<^verbatim>\<open>TypeError\<close> on \<^verbatim>\<open>null\<close> and \<^verbatim>\<open>undefined\<close>.
\<close>

fun get_prop :: "json \<Rightarrow> string \<Rightarrow> json" where
  "get_prop (JObj kvs) k = (case map_of kvs k of None \<Rightarrow> JUndefined | Some v \<Rightarrow> v)"
| "get_prop v k = JUndefined"

definition nullish :: "json \<Rightarrow> bool" where
  "nullish v = (v = JNull \<or> v = JUndefined)"

definition opt_prop :: "json \<Rightarrow> string \<Rightarrow> json" where
  "opt_prop v k = (if nullish v then JUndefined else get_prop v k)"

definition dot :: "js_engine \<Rightarrow> json \<Rightarrow> string \<Rightarrow> thrown + json" where
  "dot rt v k = (if nullish v then Inl (TypeError rt) else Inr (get_prop v k))"

text \<open>
  \<^verbatim>\<open>ToString\<close>, as a template literal and \<^verbatim>\<open>new Error(message)\<close> apply it. An object
  with a property of its own named \<^verbatim>\<open>toString\<close> hides \<^verbatim>\<open>Object.prototype.toString\<close>
  behind a value that cannot be called, and the conversion throws a \<^verbatim>\<open>TypeError\<close>;
  any other object gives \<^verbatim>\<open>[object Object]\<close>. An array joins its elements with
  commas, \<^verbatim>\<open>null\<close> and \<^verbatim>\<open>undefined\<close> elements as the empty string.
\<close>

fun ToString :: "js_engine \<Rightarrow> json \<Rightarrow> thrown + string"
  and join_elements :: "js_engine \<Rightarrow> json list \<Rightarrow> thrown + string" where
  "ToString rt JUndefined = Inr ''undefined''"
| "ToString rt JNull = Inr ''null''"
| "ToString rt (JBool b) = Inr (if b then ''true'' else ''false'')"
| "ToString rt (JNum r) = Inr (number_to_string rt r)"
| "ToString rt (JStr s) = Inr s"
| "ToString rt (JArr xs) = join_elements rt xs"
| "ToString rt (JObj kvs) =
     (if map_of kvs ''toString'' \<noteq> None then Inl (TypeError rt)
      else Inr ''[object Object]'')"
| "join_elements rt [] = Inr []"
| "join_elements rt (x # xs) =
     (case (if nullish x then Inr [] else ToString rt x) of
        Inl e \<Rightarrow> Inl e
      | Inr s \<Rightarrow>
          (if xs = [] then Inr s
           else (case join_elements rt xs of
                   Inl e \<Rightarrow> Inl e
                 | Inr t \<Rightarrow> Inr (s @ '','' @ t))))"

section \<open>The AI session\<close>

text \<open>
  \<^verbatim>\<open>VideoPlayer.tsx\<close>, the \<^verbatim>\<open>aiState\<close> prop: the session the parent holds for the
  selected video. \<^verbatim>\<open>aiTaskId\<close> and \<^verbatim>\<open>aiTaskStatus\<close> hold what the backend sent
  (\<^verbatim>\<open>null\<close> is \<open>JNull\<close>); \<^verbatim>\<open>aiError\<close> holds a message string or \<^verbatim>\<open>null\<close>.
\<close>

record ai_state =
  runAI :: bool
  aiTaskId :: json
  aiTaskStatus :: json
  aiError :: "string option"

text \<open>
  The argument of \<^verbatim>\<open>onAiStateChange\<close>: an object naming some of the four fields.
  \<open>None\<close> is a field the object does not name.
\<close>

record ai_updates =
  upd_runAI :: "bool option"
  upd_aiTaskId :: "json option"
  upd_aiTaskStatus :: "json option"
  upd_aiError :: "string option option"

definition no_updates :: ai_updates where
  "no_updates = \<lparr>upd_runAI = None, upd_aiTaskId = None, upd_aiTaskStatus = None, upd_aiError = None\<rparr>"

text \<open>
  Modelled from the spec: the parent component that implements \<^verbatim>\<open>onAiStateChange\<close> is
  not under src/ (the \<^verbatim>\<open>App.tsx\<close> there predates the \<^verbatim>\<open>aiState\<close> prop). The spec has
  the session hold the four fields, each operation changing the fields it names and
  no other, so the handler is the merge of the named fields into the session. With
  the four \<^verbatim>\<open>useState\<close> setters of the variant of the component that keeps the session
  itself (\<^verbatim>\<open>setAiTaskId\<close>, \<^verbatim>\<open>setAiTaskStatus\<close>, \<^verbatim>\<open>setAiError\<close>, \<^verbatim>\<open>setRunAI\<close>) it is the
  same function.
\<close>

definition onAiStateChange :: "ai_updates \<Rightarrow> ai_state \<Rightarrow> ai_state" where
  "onAiStateChange u s =
     \<lparr>runAI = (case upd_runAI u of None \<Rightarrow> runAI s | Some b \<Rightarrow> b),
      aiTaskId = (case upd_aiTaskId u of None \<Rightarrow> aiTaskId s | Some v \<Rightarrow> v),
      aiTaskStatus = (case upd_aiTaskStatus u of None \<Rightarrow> aiTaskStatus s | Some v \<Rightarrow> v),
      aiError = (case upd_aiError u of None \<Rightarrow> aiError s | Some e \<Rightarrow> e)\<rparr>"

text \<open>
  What the component reads from the prop at each render (\<^verbatim>\<open>aiState?.x || null\<close>): a
  falsy stored value reads as \<^verbatim>\<open>null\<close>, in particular the empty string.
\<close>

definition or_null :: "json \<Rightarrow> json" where
  "or_null v = (if truthy v then v else JNull)"

definition read_runAI :: "ai_state \<Rightarrow> bool" where
  "read_runAI s = runAI s"

definition read_aiTaskId :: "ai_state \<Rightarrow> json" where
  "read_aiTaskId s = or_null (aiTaskId s)"

definition read_aiTaskStatus :: "ai_state \<Rightarrow> json" where
  "read_aiTaskStatus s = or_null (aiTaskStatus s)"

definition read_aiError :: "ai_state \<Rightarrow> string option" where
  "read_aiError s = (case aiError s of None \<Rightarrow> None | Some m \<Rightarrow> if m = [] then None else Some m)"

text \<open>\<^verbatim>\<open>aiTaskStatus?.status === lit\<close>: strict equality with a string literal.\<close>

definition status_is :: "ai_state \<Rightarrow> string \<Rightarrow> bool" where
  "status_is s lit = (opt_prop (read_aiTaskStatus s) ''status'' = JStr lit)"

subsection \<open>Network round-trips\<close>

text \<open>
  What \<^verbatim>\<open>await fetch(...)\<close> and \<^verbatim>\<open>await response.json()\<close> give the component: the
  fetch rejects with a thrown value or resolves with a response; the response has a
  status code (\<^verbatim>\<open>response.ok\<close> is true on 200 to 299) and a body that parses to a
  value or makes \<^verbatim>\<open>json()\<close> reject.
\<close>

record http_response =
  resp_status :: nat
  resp_json :: "thrown + json"

datatype fetch_outcome = FetchRejected thrown | FetchResolved http_response

definition response_ok :: "http_response \<Rightarrow> bool" where
  "response_ok r = (200 \<le> resp_status r \<and> resp_status r \<le> 299)"

text \<open>
  \<^verbatim>\<open>throw new Error(v)\<close>: the constructor converts \<open>v\<close> to the message string, and
  what is thrown is the \<^verbatim>\<open>TypeError\<close> of the conversion when that fails.
\<close>

definition new_Error :: "js_engine \<Rightarrow> json \<Rightarrow> thrown" where
  "new_Error rt v = (case ToString rt v of Inl e \<Rightarrow> e | Inr m \<Rightarrow> ErrorObject m)"

text \<open>
  \<^verbatim>\<open>error instanceof Error ? error.message : 'Unknown error occurred'\<close>
\<close>

definition errorMessage :: "thrown \<Rightarrow> string" where
  "errorMessage e = (case e of ErrorObject m \<Rightarrow> m | NonError \<Rightarrow> ''Unknown error occurred'')"

subsection \<open>Submission\<close>

text \<open>
  \<^verbatim>\<open>startAIProcessing\<close>, the body of its \<^verbatim>\<open>try\<close> block after the first state change:
  the value it throws, or the update it passes to \<^verbatim>\<open>onAiStateChange\<close>. The request
  body is built from strings and constants and cannot fail.
\<close>

definition PENDING_snapshot :: json where
  "PENDING_snapshot = JObj [(''status'', JStr ''PENDING''), (''progress'', JNum 0)]"

definition submit_try :: "js_engine \<Rightarrow> fetch_outcome \<Rightarrow> thrown + ai_updates" where
  "submit_try rt outcome =
     (case outcome of
        FetchRejected e \<Rightarrow> Inl e
      | FetchResolved response \<Rightarrow>
          if \<not> response_ok response
          then Inl (ErrorObject
                 (''HTTP error! status: '' @ number_to_string rt (real (resp_status response))))
          else (case resp_json response of
                  Inl e \<Rightarrow> Inl e
                | Inr data \<Rightarrow>
                    (case dot rt data ''success'' of
                       Inl e \<Rightarrow> Inl e
                     | Inr success \<Rightarrow>
                         if truthy success
                            \<and> truthy (opt_prop (get_prop data ''data'') ''task_id'')
                         then Inr (no_updates
                                \<lparr>upd_aiTaskId := Some (get_prop (get_prop data ''data'') ''task_id''),
                                 upd_aiTaskStatus := Some PENDING_snapshot\<rparr>)
                         else Inl (new_Error rt
                                (if truthy (get_prop data ''message'') then get_prop data ''message''
                                 else JStr ''Failed to start AI processing'')))))"

definition startAIProcessing :: "js_engine \<Rightarrow> fetch_outcome \<Rightarrow> ai_state \<Rightarrow> ai_state" where
  "startAIProcessing rt outcome s =
     (let s1 = onAiStateChange (no_updates\<lparr>upd_aiError := Some None\<rparr>) s
      in case submit_try rt outcome of
           Inr stateUpdate \<Rightarrow> onAiStateChange stateUpdate s1
         | Inl e \<Rightarrow> onAiStateChange (no_updates\<lparr>upd_aiError := Some (Some (errorMessage e))\<rparr>) s1)"

subsection \<open>The toggle and the effect that starts or resets\<close>

text \<open>The checkbox: \<^verbatim>\<open>onChange={(e) => onAiStateChange({ runAI: e.target.checked })}\<close>.\<close>

definition toggle :: "bool \<Rightarrow> ai_state \<Rightarrow> ai_state" where
  "toggle checked s = onAiStateChange (no_updates\<lparr>upd_runAI := Some checked\<rparr>) s"

text \<open>
  The first \<^verbatim>\<open>useEffect\<close>: it calls \<^verbatim>\<open>startAIProcessing\<close>, or resets the session, or
  does nothing.
\<close>

datatype effect_result = CallStartAIProcessing | StateChanged ai_state | NothingToDo

definition reset_updates :: ai_updates where
  "reset_updates =
     \<lparr>upd_runAI = Some False, upd_aiTaskId = Some JNull,
      upd_aiTaskStatus = Some JNull, upd_aiError = Some None\<rparr>"

definition start_or_reset_effect :: "ai_state \<Rightarrow> effect_result" where
  "start_or_reset_effect s =
     (if read_runAI s \<and> \<not> truthy (read_aiTaskId s) \<and> read_aiError s = None
      then CallStartAIProcessing
      else if \<not> read_runAI s \<and> truthy (read_aiTaskId s)
      then StateChanged (onAiStateChange reset_updates s)
      else NothingToDo)"

text \<open>
  The checkbox is rendered with \<^verbatim>\<open>disabled={aiTaskStatus?.status === 'RUNNING'}\<close>:
  while it is disabled the user cannot change it and its handler does not run.
\<close>

definition checkbox_disabled :: "ai_state \<Rightarrow> bool" where
  "checkbox_disabled s = status_is s ''RUNNING''"

text \<open>
  The user turns the toggle off: nothing happens on a disabled checkbox; otherwise
  the checkbox handler runs, then the effect on the new session (with the toggle off
  the effect cannot start a submission).
\<close>

definition toggle_off :: "ai_state \<Rightarrow> ai_state" where
  "toggle_off s =
     (if checkbox_disabled s then s
      else (let s1 = toggle False s
            in case start_or_reset_effect s1 of
                 StateChanged s2 \<Rightarrow> s2
               | CallStartAIProcessing \<Rightarrow> s1
               | NothingToDo \<Rightarrow> s1))"

subsection \<open>Polling\<close>

text \<open>
  The second \<^verbatim>\<open>useEffect\<close>: the two-second interval exists exactly while this
  condition holds (the effect is rerun, and the interval cleared, whenever the task
  id or the status changes).
\<close>

definition polling_interval_set :: "ai_state \<Rightarrow> bool" where
  "polling_interval_set s =
     (truthy (read_aiTaskId s) \<and> (status_is s ''RUNNING'' \<or> status_is s ''PENDING''))"

text \<open>
  \<^verbatim>\<open>checkAITaskStatus\<close>. The address it requests is a template literal inside the
  \<^verbatim>\<open>try\<close> block; \<open>poll_request\<close> is the request one call issues, if any.
\<close>

definition poll_url :: "js_engine \<Rightarrow> ai_state \<Rightarrow> thrown + string" where
  "poll_url rt s =
     (case ToString rt (read_aiTaskId s) of
        Inl e \<Rightarrow> Inl e
      | Inr t \<Rightarrow> Inr (''http://localhost:8000/api/v1/ai/tasks/'' @ t))"

definition poll_request :: "js_engine \<Rightarrow> ai_state \<Rightarrow> string option" where
  "poll_request rt s =
     (if \<not> truthy (read_aiTaskId s) then None
      else (case poll_url rt s of Inl e \<Rightarrow> None | Inr url \<Rightarrow> Some url))"

text \<open>
  \<open>poll_answer\<close> is the part of \<^verbatim>\<open>checkAITaskStatus\<close> that runs once
  \<^verbatim>\<open>await fetch(...)\<close> has settled. It stores \<^verbatim>\<open>data.data\<close> whatever its status and
  whatever the session holds by then: there is no check that the answer is newer
  than the stored snapshot.
\<close>

definition poll_answer :: "js_engine \<Rightarrow> fetch_outcome \<Rightarrow> ai_state \<Rightarrow> ai_state" where
  "poll_answer rt outcome s =
     (case outcome of
        FetchRejected e \<Rightarrow> s
      | FetchResolved response \<Rightarrow>
          (case resp_json response of
             Inl e \<Rightarrow> s
           | Inr data \<Rightarrow>
               (case dot rt data ''success'' of
                  Inl e \<Rightarrow> s
                | Inr success \<Rightarrow>
                    if truthy success \<and> truthy (get_prop data ''data'')
                    then onAiStateChange
                           (no_updates\<lparr>upd_aiTaskStatus := Some (get_prop data ''data'')\<rparr>) s
                    else s)))"

text \<open>One whole call of \<^verbatim>\<open>checkAITaskStatus\<close>, from the call to the end of its round-trip.\<close>

definition checkAITaskStatus :: "js_engine \<Rightarrow> fetch_outcome \<Rightarrow> ai_state \<Rightarrow> ai_state" where
  "checkAITaskStatus rt outcome s =
     (if \<not> truthy (read_aiTaskId s) then s
      else (case poll_url rt s of
              Inl e \<Rightarrow> s
            | Inr url \<Rightarrow> poll_answer rt outcome s))"





definition terminal :: "ai_state \<Rightarrow> bool" where
  "terminal s = (status_is s ''COMPLETED'' \<or> status_is s ''FAILED'')"

subsection \<open>The visualization address and the status indicator\<close>

definition visualization :: "ai_state \<Rightarrow> json" where
  "visualization s = opt_prop (opt_prop (read_aiTaskStatus s) ''result'') ''visualization''"

definition getVisualizationUrl :: "js_engine \<Rightarrow> ai_state \<Rightarrow> thrown + string option" where
  "getVisualizationUrl rt s =
     (if status_is s ''COMPLETED'' \<and> truthy (visualization s)
      then (case ToString rt (get_prop (visualization s) ''visualization_path'') of
              Inl e \<Rightarrow> Inl e
            | Inr path \<Rightarrow> Inr (Some (''http://localhost:8000'' @ path)))
      else Inr None)"

datatype indicator = Success | Error | Pending | Empty

text \<open>
  \<^verbatim>\<open>getStatusIndicator\<close> reads the session and the constant \<^verbatim>\<open>visualizationUrl\<close> that
  the render computed just before; \<open>statusIndicator\<close> is the two together.
\<close>

definition getStatusIndicator :: "ai_state \<Rightarrow> string option \<Rightarrow> indicator" where
  "getStatusIndicator s visualizationUrl =
     (if status_is s ''COMPLETED''
         \<and> (case visualizationUrl of None \<Rightarrow> False | Some url \<Rightarrow> url \<noteq> [])
      then Success
      else if status_is s ''FAILED'' \<or> read_aiError s \<noteq> None then Error
      else if status_is s ''RUNNING'' \<or> status_is s ''PENDING'' then Pending
      else Empty)"

definition statusIndicator :: "js_engine \<Rightarrow> ai_state \<Rightarrow> thrown + indicator" where
  "statusIndicator rt s =
     (case getVisualizationUrl rt s of
        Inl e \<Rightarrow> Inl e
      | Inr visualizationUrl \<Rightarrow> Inr (getStatusIndicator s visualizationUrl))"

subsection \<open>Failing and successful round-trips, in the words of the specification\<close>

text \<open>
  A failing submission: a network error, an HTTP status that is not a success, a
  body that does not parse, or a payload without \<^verbatim>\<open>success\<close> or without a task id.
\<close>

definition submission_fails :: "fetch_outcome \<Rightarrow> bool" where
  "submission_fails outcome =
     (case outcome of
        FetchRejected e \<Rightarrow> True
      | FetchResolved response \<Rightarrow>
          \<not> response_ok response
          \<or> (case resp_json response of
                Inl e \<Rightarrow> True
              | Inr data \<Rightarrow>
                  \<not> (truthy (opt_prop data ''success'')
                     \<and> truthy (opt_prop (opt_prop data ''data'') ''task_id''))))"

text \<open>
  The snapshot a poll round-trip delivers: the \<^verbatim>\<open>data\<close> of a body that parses and
  carries \<^verbatim>\<open>success\<close> and \<^verbatim>\<open>data\<close>. A round-trip that delivers none is a transient
  failure (a network error, a body that does not parse, a body without \<^verbatim>\<open>success\<close>
  or \<^verbatim>\<open>data\<close>).
\<close>

definition delivered_snapshot :: "fetch_outcome \<Rightarrow> json option" where
  "delivered_snapshot outcome =
     (case outcome of
        FetchRejected e \<Rightarrow> None
      | FetchResolved response \<Rightarrow>
          (case resp_json response of
             Inl e \<Rightarrow> None
           | Inr data \<Rightarrow>
               if truthy (opt_prop data ''success'') \<and> truthy (opt_prop data ''data'')
               then Some (opt_prop data ''data'')
               else None))"

text \<open>A snapshot whose status is one of the four statuses of a task.\<close>

definition has_task_status :: "json \<Rightarrow> bool" where
  "has_task_status snapshot =
     (get_prop snapshot ''status'' = JStr ''PENDING''
      \<or> get_prop snapshot ''status'' = JStr ''RUNNING''
      \<or> get_prop snapshot ''status'' = JStr ''COMPLETED''
      \<or> get_prop snapshot ''status'' = JStr ''FAILED'')"

subsection \<open>An engine for concrete inputs\<close>

text \<open>
  To evaluate the definitions at concrete inputs: an engine that renders whole
  numbers in decimal, as every engine does, and throws \<^verbatim>\<open>TypeError\<close>s with a
  fixed message. It renders any other number by its integer part, which no
  evaluation below relies on.
\<close>

fun show_nat :: "nat \<Rightarrow> string" where
  "show_nat n =
     (if n < 10 then [''0123456789'' ! n]
      else show_nat (n div 10) @ [''0123456789'' ! (n mod 10)])"

declare show_nat.simps [simp del]

definition decimal_engine :: js_engine where
  "decimal_engine =
     \<lparr>number_to_string =
        (\<lambda>r. if r < 0 then ''-'' @ show_nat (nat \<lfloor>- r\<rfloor>) else show_nat (nat \<lfloor>r\<rfloor>)),
      type_error_message = ''Cannot read properties of null''\<rparr>"

section \<open>The annotation overlay of the interactive player\<close>

text \<open>
  \<^verbatim>\<open>InteractiveVideoPlayer.tsx\<close>: an annotation and the component state that
  \<^verbatim>\<open>handleDeleteAnnotation\<close> reads and writes. The coordinates and the timestamp are
  JavaScript numbers that deletion only copies, so their type is left open.
\<close>

record 'n annotation =
  ann_id :: string
  ann_x :: 'n
  ann_y :: 'n
  ann_text :: string
  ann_timestamp :: 'n

record 'n player_state =
  annotations :: "'n annotation list"
  isEditing :: bool
  editingAnnotation :: "'n annotation option"
  tempText :: string

definition handleDeleteAnnotation :: "string \<Rightarrow> 'n player_state \<Rightarrow> 'n player_state" where
  "handleDeleteAnnotation i st =
     (let st1 = st\<lparr>annotations := filter (\<lambda>ann. ann_id ann \<noteq> i) (annotations st)\<rparr>
      in if (case editingAnnotation st of None \<Rightarrow> False | Some e \<Rightarrow> ann_id e = i)
         then st1\<lparr>isEditing := False, editingAnnotation := None\<rparr>
         else st1)"

section \<open>Properties\<close>

subsection \<open>Facts shared by the proofs\<close>

lemma show_nat_500: "show_nat 500 = ''500''"
  by (simp add: show_nat.simps [of 500] show_nat.simps [of 50] show_nat.simps [of 5])

lemma decimal_engine_500: "number_to_string decimal_engine 500 = ''500''"
  by (simp add: decimal_engine_def show_nat_500)

lemma replace_first_prefix:
  "pat \<noteq> [] \<Longrightarrow> replace_first pat rep (pat @ rest) = rep @ rest"
  by (cases pat) simp_all

lemmas session_reads =
  status_is_def visualization_def read_runAI_def read_aiTaskId_def read_aiTaskStatus_def
  read_aiError_def or_null_def opt_prop_def nullish_def checkbox_disabled_def

lemmas session_writes = onAiStateChange_def no_updates_def reset_updates_def






lemma poll_answer_delivered:
  "poll_answer rt outcome s =
     (case delivered_snapshot outcome of None \<Rightarrow> s | Some snap \<Rightarrow> s\<lparr>aiTaskStatus := snap\<rparr>)"
  by (auto simp: poll_answer_def delivered_snapshot_def dot_def opt_prop_def
        onAiStateChange_def no_updates_def
           split: fetch_outcome.splits sum.splits)

lemma delivered_snapshot_truthy: "delivered_snapshot outcome = Some snap \<Longrightarrow> truthy snap"
  by (auto simp: delivered_snapshot_def split: fetch_outcome.splits sum.splits if_splits)

lemma checkAITaskStatus_delivered:
  "checkAITaskStatus rt outcome s =
     (if poll_request rt s = None then s
      else (case delivered_snapshot outcome of None \<Rightarrow> s | Some snap \<Rightarrow> s\<lparr>aiTaskStatus := snap\<rparr>))"
  by (auto simp: checkAITaskStatus_def poll_request_def poll_answer_delivered split: sum.splits)

lemma interval_after_snapshot:
  "truthy snap \<Longrightarrow>
     polling_interval_set (s\<lparr>aiTaskStatus := snap\<rparr>)
       = (truthy (read_aiTaskId s)
          \<and> (get_prop snap ''status'' = JStr ''RUNNING'' \<or> get_prop snap ''status'' = JStr ''PENDING''))"
  by (auto simp: polling_interval_set_def status_is_def read_aiTaskStatus_def read_aiTaskId_def
        or_null_def opt_prop_def nullish_def)

lemma stored_snapshot_terminal:
  assumes "truthy snap" and "has_task_status snap"
    and "\<not> polling_interval_set (s\<lparr>aiTaskStatus := snap\<rparr>)"
    and "polling_interval_set s"
  shows "terminal (s\<lparr>aiTaskStatus := snap\<rparr>)"
  using assms
  by (auto simp: terminal_def polling_interval_set_def status_is_def has_task_status_def
        read_aiTaskStatus_def read_aiTaskId_def or_null_def opt_prop_def nullish_def)

lemma submit_try_fails:
  "submission_fails outcome = (\<exists>e. submit_try rt outcome = Inl e)"
  by (auto simp: submission_fails_def submit_try_def dot_def opt_prop_def
           split: fetch_outcome.splits sum.splits)

lemma startAIProcessing_thrown:
  "submit_try rt outcome = Inl e \<Longrightarrow>
     startAIProcessing rt outcome s = s\<lparr>aiError := Some (errorMessage e)\<rparr>"
  by (simp add: startAIProcessing_def onAiStateChange_def no_updates_def)

subsection \<open>The visualization address\<close>

text \<open>
  C1 (as amended). \<^verbatim>\<open>getVisualizationUrl\<close> returns \<^verbatim>\<open>null\<close> exactly when the status of
  the snapshot is not \<^verbatim>\<open>COMPLETED\<close> or \<^verbatim>\<open>result.visualization\<close> is absent (falsy). The
  gate is the visualization object, not its \<^verbatim>\<open>visualization_path\<close>: for a
  \<^verbatim>\<open>COMPLETED\<close> snapshot with a visualization it returns the server base followed by
  the path as the template literal renders it, which is the path itself when it is
  a string and \<^verbatim>\<open>undefined\<close> when it is missing; and where the rendering throws (a
  path that is an object with a \<^verbatim>\<open>toString\<close> property of its own) the call throws
  what the rendering throws.
\<close>

theorem visualization_url_gate:
  "(getVisualizationUrl rt s = Inr None)
     = (\<not> (status_is s ''COMPLETED'' \<and> truthy (visualization s)))
   \<and> (status_is s ''COMPLETED'' \<and> truthy (visualization s)
        \<and> ToString rt (get_prop (visualization s) ''visualization_path'') = Inr rendered
      \<longrightarrow> getVisualizationUrl rt s = Inr (Some (''http://localhost:8000'' @ rendered)))
   \<and> (status_is s ''COMPLETED'' \<and> truthy (visualization s)
        \<and> ToString rt (get_prop (visualization s) ''visualization_path'') = Inl e
      \<longrightarrow> getVisualizationUrl rt s = Inl e)
   \<and> (status_is s ''COMPLETED'' \<and> truthy (visualization s)
        \<and> get_prop (visualization s) ''visualization_path'' = JStr path
      \<longrightarrow> getVisualizationUrl rt s = Inr (Some (''http://localhost:8000'' @ path)))
   \<and> (status_is s ''COMPLETED'' \<and> truthy (visualization s)
        \<and> get_prop (visualization s) ''visualization_path'' = JUndefined
      \<longrightarrow> getVisualizationUrl rt s = Inr (Some ''http://localhost:8000undefined''))"
  by (auto simp: getVisualizationUrl_def split: sum.splits)

text \<open>
  The theorem at the snapshot
  \<^verbatim>\<open>{status:"COMPLETED", result:{visualization:{visualization_path:"/viz/abc123.mp4"}}}\<close>.
\<close>

theorem visualization_url_gate_witness:
  "status_is
     \<lparr>runAI = True, aiTaskId = JStr ''abc123'',
      aiTaskStatus = JObj [(''status'', JStr ''COMPLETED''),
                           (''result'', JObj [(''visualization'',
                              JObj [(''visualization_path'', JStr ''/viz/abc123.mp4'')])])],
      aiError = None\<rparr> ''COMPLETED''
   \<and> getVisualizationUrl decimal_engine
     \<lparr>runAI = True, aiTaskId = JStr ''abc123'',
      aiTaskStatus = JObj [(''status'', JStr ''COMPLETED''),
                           (''result'', JObj [(''visualization'',
                              JObj [(''visualization_path'', JStr ''/viz/abc123.mp4'')])])],
      aiError = None\<rparr>
     = Inr (Some ''http://localhost:8000/viz/abc123.mp4'')"
  (is "status_is ?s _ \<and> _")
proof -
  have h: "status_is ?s ''COMPLETED'' \<and> truthy (visualization ?s)
           \<and> ToString decimal_engine (get_prop (visualization ?s) ''visualization_path'')
               = Inr ''/viz/abc123.mp4''"
    by (simp add: session_reads)
  have "getVisualizationUrl decimal_engine ?s
        = Inr (Some (''http://localhost:8000'' @ ''/viz/abc123.mp4''))"
    using visualization_url_gate
            [where rt = decimal_engine and s = ?s and rendered = "''/viz/abc123.mp4''"] h
    by blast
  with h show ?thesis by simp
qed

text \<open>
  The claim as stated fails at a \<^verbatim>\<open>COMPLETED\<close> snapshot whose result has a
  visualization object without a path,
  \<^verbatim>\<open>{status:"COMPLETED", result:{visualization:{}}}\<close>: the function returns the server
  base followed by the rendering of \<^verbatim>\<open>undefined\<close>, not \<^verbatim>\<open>null\<close>.
\<close>

theorem visualization_without_path_counterexample:
  "getVisualizationUrl decimal_engine
     \<lparr>runAI = True, aiTaskId = JStr ''abc123'',
      aiTaskStatus = JObj [(''status'', JStr ''COMPLETED''),
                           (''result'', JObj [(''visualization'', JObj [])])],
      aiError = None\<rparr>
   = Inr (Some ''http://localhost:8000undefined'')"
  by (simp add: getVisualizationUrl_def session_reads)

subsection \<open>Polling\<close>




text \<open>
  C7 (as amended). A poll round-trip that fails transiently (the fetch rejects, the
  body does not parse, or the body carries no \<^verbatim>\<open>success\<close> or no \<^verbatim>\<open>data\<close>) leaves the
  whole session as it was: \<^verbatim>\<open>aiTaskStatus\<close>, \<^verbatim>\<open>aiTaskId\<close> and \<^verbatim>\<open>aiError\<close> are
  unchanged, and with them the condition under which the interval exists. A
  round-trip ends the interval exactly when its request went out and it delivered a
  snapshot whose status is neither \<^verbatim>\<open>RUNNING\<close> nor \<^verbatim>\<open>PENDING\<close>: a terminal status,
  but also any other status or none. The snapshot is then the stored one, and when
  its status is one of the four task statuses, it is a terminal one.
\<close>

theorem transient_poll_failure_keeps_session:
  "(delivered_snapshot outcome = None \<longrightarrow> checkAITaskStatus rt outcome s = s)
   \<and> (polling_interval_set s \<longrightarrow>
        (\<not> polling_interval_set (checkAITaskStatus rt outcome s))
          = (poll_request rt s \<noteq> None
             \<and> (\<exists>snap. delivered_snapshot outcome = Some snap
                   \<and> get_prop snap ''status'' \<noteq> JStr ''RUNNING''
                   \<and> get_prop snap ''status'' \<noteq> JStr ''PENDING'')))
   \<and> (polling_interval_set s \<and> \<not> polling_interval_set (checkAITaskStatus rt outcome s)
       \<longrightarrow> (\<exists>snap. delivered_snapshot outcome = Some snap
                 \<and> aiTaskStatus (checkAITaskStatus rt outcome s) = snap
                 \<and> (has_task_status snap \<longrightarrow> terminal (checkAITaskStatus rt outcome s))))"
proof (intro conjI impI)
  assume "delivered_snapshot outcome = None"
  then show "checkAITaskStatus rt outcome s = s"
    by (simp add: checkAITaskStatus_delivered)
next
  assume a: "polling_interval_set s"
  then have t: "truthy (read_aiTaskId s)"
    by (simp add: polling_interval_set_def)
  show "(\<not> polling_interval_set (checkAITaskStatus rt outcome s))
          = (poll_request rt s \<noteq> None
             \<and> (\<exists>snap. delivered_snapshot outcome = Some snap
                   \<and> get_prop snap ''status'' \<noteq> JStr ''RUNNING''
                   \<and> get_prop snap ''status'' \<noteq> JStr ''PENDING''))"
  proof (cases "delivered_snapshot outcome")
    case None
    with a show ?thesis by (simp add: checkAITaskStatus_delivered)
  next
    case (Some snap)
    then have "truthy snap" by (rule delivered_snapshot_truthy)
    with a t Some show ?thesis
      by (auto simp: checkAITaskStatus_delivered interval_after_snapshot)
  qed
next
  assume a: "polling_interval_set s \<and> \<not> polling_interval_set (checkAITaskStatus rt outcome s)"
  then have "checkAITaskStatus rt outcome s \<noteq> s" by auto
  then obtain snap where snap: "delivered_snapshot outcome = Some snap"
      "checkAITaskStatus rt outcome s = s\<lparr>aiTaskStatus := snap\<rparr>"
    by (auto simp: checkAITaskStatus_delivered split: if_splits option.splits)
  have "truthy snap" using snap(1) by (rule delivered_snapshot_truthy)
  then have "has_task_status snap \<longrightarrow> terminal (s\<lparr>aiTaskStatus := snap\<rparr>)"
    using stored_snapshot_terminal [of snap s] snap a by auto
  with snap show "\<exists>snap. delivered_snapshot outcome = Some snap
                 \<and> aiTaskStatus (checkAITaskStatus rt outcome s) = snap
                 \<and> (has_task_status snap \<longrightarrow> terminal (checkAITaskStatus rt outcome s))"
    by simp
qed

text \<open>
  The theorem on a session polling for task \<^verbatim>\<open>abc123\<close>: a body
  \<^verbatim>\<open>{success:false}\<close> changes nothing and the interval stays; a \<^verbatim>\<open>FAILED\<close> snapshot
  ends it.
\<close>

theorem transient_poll_failure_keeps_session_witness:
  "delivered_snapshot
     (FetchResolved \<lparr>resp_status = 200, resp_json = Inr (JObj [(''success'', JBool False)])\<rparr>)
     = None
   \<and> polling_interval_set
       (checkAITaskStatus decimal_engine
          (FetchResolved \<lparr>resp_status = 200, resp_json = Inr (JObj [(''success'', JBool False)])\<rparr>)
          \<lparr>runAI = True, aiTaskId = JStr ''abc123'', aiTaskStatus = PENDING_snapshot,
           aiError = None\<rparr>)
   \<and> \<not> polling_interval_set
       (checkAITaskStatus decimal_engine
          (FetchResolved \<lparr>resp_status = 200, resp_json = Inr (JObj [(''success'', JBool True),
             (''data'', JObj [(''status'', JStr ''FAILED''), (''error'', JStr ''out of memory'')])])\<rparr>)
          \<lparr>runAI = True, aiTaskId = JStr ''abc123'', aiTaskStatus = PENDING_snapshot,
           aiError = None\<rparr>)
   \<and> terminal
       (checkAITaskStatus decimal_engine
          (FetchResolved \<lparr>resp_status = 200, resp_json = Inr (JObj [(''success'', JBool True),
             (''data'', JObj [(''status'', JStr ''FAILED''), (''error'', JStr ''out of memory'')])])\<rparr>)
          \<lparr>runAI = True, aiTaskId = JStr ''abc123'', aiTaskStatus = PENDING_snapshot,
           aiError = None\<rparr>)"
  (is "delivered_snapshot ?bad = None \<and> polling_interval_set (checkAITaskStatus _ _ ?s)
       \<and> \<not> polling_interval_set (checkAITaskStatus _ ?good _) \<and> _")
proof -
  have none: "delivered_snapshot ?bad = None"
    by (simp add: delivered_snapshot_def session_reads)
  have set: "polling_interval_set ?s"
    by (simp add: polling_interval_set_def PENDING_snapshot_def session_reads)
  have same: "checkAITaskStatus decimal_engine ?bad ?s = ?s"
    using transient_poll_failure_keeps_session [of ?bad decimal_engine ?s] none by blast
  have some: "delivered_snapshot ?good
              = Some (JObj [(''status'', JStr ''FAILED''), (''error'', JStr ''out of memory'')])"
    by (simp add: delivered_snapshot_def session_reads)
  have req: "poll_request decimal_engine ?s \<noteq> None"
    by (simp add: poll_request_def poll_url_def session_reads)
  have task: "has_task_status (JObj [(''status'', JStr ''FAILED''), (''error'', JStr ''out of memory'')])"
    by (simp add: has_task_status_def)
  have stop: "\<not> polling_interval_set (checkAITaskStatus decimal_engine ?good ?s)"
    using transient_poll_failure_keeps_session [of ?good decimal_engine ?s] set some req
    by simp
  have "terminal (checkAITaskStatus decimal_engine ?good ?s)"
    using transient_poll_failure_keeps_session [of ?good decimal_engine ?s] set stop some task
    by auto
  with none set same stop show ?thesis by simp
qed

text \<open>
  The claim as stated fails at the answer
  \<^verbatim>\<open>{success:true, data:{status:"CANCELLED"}}\<close>: the snapshot parses and is stored,
  the interval ends, and the status is not a terminal one.
\<close>

theorem unknown_status_ends_polling_counterexample:
  "polling_interval_set
     \<lparr>runAI = True, aiTaskId = JStr ''abc123'', aiTaskStatus = PENDING_snapshot, aiError = None\<rparr>
   \<and> \<not> polling_interval_set
       (checkAITaskStatus decimal_engine
          (FetchResolved \<lparr>resp_status = 200, resp_json = Inr (JObj [(''success'', JBool True),
             (''data'', JObj [(''status'', JStr ''CANCELLED'')])])\<rparr>)
          \<lparr>runAI = True, aiTaskId = JStr ''abc123'', aiTaskStatus = PENDING_snapshot,
           aiError = None\<rparr>)
   \<and> \<not> terminal
       (checkAITaskStatus decimal_engine
          (FetchResolved \<lparr>resp_status = 200, resp_json = Inr (JObj [(''success'', JBool True),
             (''data'', JObj [(''status'', JStr ''CANCELLED'')])])\<rparr>)
          \<lparr>runAI = True, aiTaskId = JStr ''abc123'', aiTaskStatus = PENDING_snapshot,
           aiError = None\<rparr>)"
  by (simp add: checkAITaskStatus_def poll_answer_def poll_url_def dot_def polling_interval_set_def
        terminal_def PENDING_snapshot_def session_reads session_writes)

subsection \<open>Submission\<close>

text \<open>
  C3 (as amended). For every failing submission (network error, HTTP status that is
  not a success, body that does not parse, payload without \<^verbatim>\<open>success\<close> or without a
  task id), \<^verbatim>\<open>startAIProcessing\<close> stores the message of what its \<^verbatim>\<open>try\<close> block threw
  in \<^verbatim>\<open>aiError\<close> and changes nothing else: no task id is assigned, the status is
  untouched and the toggle is left as it was. When the fetch rejects, the message
  is the one of the \<^verbatim>\<open>Error\<close> it rejects with (\<^verbatim>\<open>Unknown error occurred\<close> for any
  other thrown value); when the status is not a success, it is
  \<^verbatim>\<open>HTTP error! status:\<close> with the status code. The component reads the error as set exactly
  when the message is not the empty string. Called by the effect, which requires
  the toggle on and no task, it ends with the toggle still on and no task; the
  effect then submits nothing as long as a non-empty message is stored.
\<close>

theorem failed_submission_sets_error_only:
  "submission_fails outcome \<Longrightarrow>
     (\<exists>e. submit_try rt outcome = Inl e
        \<and> startAIProcessing rt outcome s = s\<lparr>aiError := Some (errorMessage e)\<rparr>
        \<and> read_aiError (startAIProcessing rt outcome s)
            = (if errorMessage e = [] then None else Some (errorMessage e))
        \<and> (start_or_reset_effect s = CallStartAIProcessing
             \<longrightarrow> runAI (startAIProcessing rt outcome s)
                 \<and> \<not> truthy (read_aiTaskId (startAIProcessing rt outcome s))
                 \<and> start_or_reset_effect (startAIProcessing rt outcome s)
                     = (if errorMessage e = [] then CallStartAIProcessing else NothingToDo)))
     \<and> (\<forall>e. outcome = FetchRejected e
            \<longrightarrow> aiError (startAIProcessing rt outcome s) = Some (errorMessage e))
     \<and> (\<forall>response. outcome = FetchResolved response \<and> \<not> response_ok response
            \<longrightarrow> aiError (startAIProcessing rt outcome s)
                = Some (''HTTP error! status: ''
                        @ number_to_string rt (real (resp_status response))))"
proof -
  assume "submission_fails outcome"
  then obtain e where e: "submit_try rt outcome = Inl e"
    using submit_try_fails by blast
  then have s': "startAIProcessing rt outcome s = s\<lparr>aiError := Some (errorMessage e)\<rparr>"
    by (rule startAIProcessing_thrown)
  have shown: "read_aiError (startAIProcessing rt outcome s)
            = (if errorMessage e = [] then None else Some (errorMessage e))"
    by (simp add: s' read_aiError_def)
  have guarded: "start_or_reset_effect s = CallStartAIProcessing
             \<longrightarrow> runAI (startAIProcessing rt outcome s)
                 \<and> \<not> truthy (read_aiTaskId (startAIProcessing rt outcome s))
                 \<and> start_or_reset_effect (startAIProcessing rt outcome s)
                     = (if errorMessage e = [] then CallStartAIProcessing else NothingToDo)"
    by (auto simp: s' start_or_reset_effect_def read_runAI_def read_aiTaskId_def read_aiError_def
             split: if_splits)
  have thrown: "\<exists>e. submit_try rt outcome = Inl e
        \<and> startAIProcessing rt outcome s = s\<lparr>aiError := Some (errorMessage e)\<rparr>
        \<and> read_aiError (startAIProcessing rt outcome s)
            = (if errorMessage e = [] then None else Some (errorMessage e))
        \<and> (start_or_reset_effect s = CallStartAIProcessing
             \<longrightarrow> runAI (startAIProcessing rt outcome s)
                 \<and> \<not> truthy (read_aiTaskId (startAIProcessing rt outcome s))
                 \<and> start_or_reset_effect (startAIProcessing rt outcome s)
                     = (if errorMessage e = [] then CallStartAIProcessing else NothingToDo))"
    using e s' shown guarded by (intro exI [of _ e] conjI)
  have rejected: "\<forall>e'. outcome = FetchRejected e'
            \<longrightarrow> aiError (startAIProcessing rt outcome s) = Some (errorMessage e')"
    by (simp add: startAIProcessing_def submit_try_def onAiStateChange_def no_updates_def)
  have status: "\<forall>response. outcome = FetchResolved response \<and> \<not> response_ok response
            \<longrightarrow> aiError (startAIProcessing rt outcome s)
                = Some (''HTTP error! status: ''
                        @ number_to_string rt (real (resp_status response)))"
    by (simp add: startAIProcessing_def submit_try_def errorMessage_def onAiStateChange_def
          no_updates_def)
  show ?thesis
    by (rule conjI [OF thrown conjI [OF rejected status]])
qed

text \<open>The theorem at a fetch that rejects, from a session just toggled on.\<close>

theorem failed_submission_sets_error_only_witness:
  "submission_fails (FetchRejected (ErrorObject ''Failed to fetch''))
   \<and> start_or_reset_effect
       \<lparr>runAI = True, aiTaskId = JNull, aiTaskStatus = JNull, aiError = None\<rparr>
     = CallStartAIProcessing
   \<and> startAIProcessing decimal_engine (FetchRejected (ErrorObject ''Failed to fetch''))
          \<lparr>runAI = True, aiTaskId = JNull, aiTaskStatus = JNull, aiError = None\<rparr>
     = \<lparr>runAI = True, aiTaskId = JNull, aiTaskStatus = JNull,
        aiError = Some ''Failed to fetch''\<rparr>
   \<and> read_aiError (startAIProcessing decimal_engine (FetchRejected (ErrorObject ''Failed to fetch''))
          \<lparr>runAI = True, aiTaskId = JNull, aiTaskStatus = JNull, aiError = None\<rparr>)
     = Some ''Failed to fetch''
   \<and> start_or_reset_effect
       (startAIProcessing decimal_engine (FetchRejected (ErrorObject ''Failed to fetch''))
          \<lparr>runAI = True, aiTaskId = JNull, aiTaskStatus = JNull, aiError = None\<rparr>)
     = NothingToDo"
  (is "submission_fails ?out \<and> start_or_reset_effect ?s = _ \<and> _")
proof -
  have f: "submission_fails ?out"
    by (simp add: submission_fails_def)
  have g: "start_or_reset_effect ?s = CallStartAIProcessing"
    by (simp add: start_or_reset_effect_def session_reads)
  have t: "submit_try decimal_engine ?out = Inl (ErrorObject ''Failed to fetch'')"
    by (simp add: submit_try_def)
  have m: "errorMessage (ErrorObject ''Failed to fetch'') = ''Failed to fetch''"
    by (simp add: errorMessage_def)
  from failed_submission_sets_error_only [OF f, of decimal_engine ?s]
  obtain e where e: "submit_try decimal_engine ?out = Inl e"
      "startAIProcessing decimal_engine ?out ?s = ?s\<lparr>aiError := Some (errorMessage e)\<rparr>"
      "read_aiError (startAIProcessing decimal_engine ?out ?s)
         = (if errorMessage e = [] then None else Some (errorMessage e))"
      "start_or_reset_effect ?s = CallStartAIProcessing
         \<longrightarrow> start_or_reset_effect (startAIProcessing decimal_engine ?out ?s)
             = (if errorMessage e = [] then CallStartAIProcessing else NothingToDo)"
    by blast
  from e(1) t have "e = ErrorObject ''Failed to fetch''" by simp
  with e m f g show ?thesis by simp
qed

text \<open>
  The claim as stated fails at a submission answered with HTTP 500, from a session
  just toggled on: the error is set and no task is assigned, but the toggle is still
  on afterwards. It fails as well at the answer \<^verbatim>\<open>{success:false, message:[]}\<close> with
  status 200: the message thrown is the empty string, which the component reads as
  no error, so the session ends with the toggle on, no task and no error shown.
\<close>

theorem failed_submission_keeps_toggle_on_counterexample:
  "startAIProcessing decimal_engine
     (FetchResolved \<lparr>resp_status = 500,
        resp_json = Inr (JObj [(''detail'', JStr ''Internal Server Error'')])\<rparr>)
     \<lparr>runAI = True, aiTaskId = JNull, aiTaskStatus = JNull, aiError = None\<rparr>
   = \<lparr>runAI = True, aiTaskId = JNull, aiTaskStatus = JNull,
      aiError = Some ''HTTP error! status: 500''\<rparr>
   \<and> startAIProcessing decimal_engine
     (FetchResolved \<lparr>resp_status = 200,
        resp_json = Inr (JObj [(''success'', JBool False), (''message'', JArr [])])\<rparr>)
     \<lparr>runAI = True, aiTaskId = JNull, aiTaskStatus = JNull, aiError = None\<rparr>
   = \<lparr>runAI = True, aiTaskId = JNull, aiTaskStatus = JNull, aiError = Some []\<rparr>
   \<and> read_aiError \<lparr>runAI = True, aiTaskId = JNull, aiTaskStatus = JNull, aiError = Some []\<rparr>
     = None
   \<and> statusIndicator decimal_engine
       \<lparr>runAI = True, aiTaskId = JNull, aiTaskStatus = JNull, aiError = Some []\<rparr>
     = Inr Empty"
  by (simp add: startAIProcessing_def submit_try_def response_ok_def errorMessage_def
        decimal_engine_500 new_Error_def dot_def statusIndicator_def getStatusIndicator_def
        getVisualizationUrl_def session_reads session_writes)

text \<open>
  C6. For every successful submission response whose payload has \<^verbatim>\<open>success: true\<close>
  and a non-empty string \<^verbatim>\<open>data.task_id\<close> \<open>t\<close>, \<^verbatim>\<open>startAIProcessing\<close> itself leaves
  the session holding task id \<open>t\<close> with the synthesized status
  \<^verbatim>\<open>{status:'PENDING', progress:0}\<close> and no error, before any poll.
\<close>

theorem successful_submission_pending:
  assumes "response_ok response"
    and "resp_json response = Inr data"
    and "get_prop data ''success'' = JBool True"
    and "get_prop (get_prop data ''data'') ''task_id'' = JStr t"
    and "t \<noteq> []"
  shows "startAIProcessing rt (FetchResolved response) s
         = \<lparr>runAI = runAI s, aiTaskId = JStr t,
            aiTaskStatus = JObj [(''status'', JStr ''PENDING''), (''progress'', JNum 0)],
            aiError = None\<rparr>"
proof -
  have d: "\<not> nullish data"
    using assms(3) by (auto simp: nullish_def)
  have dd: "\<not> nullish (get_prop data ''data'')"
    using assms(4) by (auto simp: nullish_def)
  have "submit_try rt (FetchResolved response)
        = Inr (no_updates\<lparr>upd_aiTaskId := Some (JStr t), upd_aiTaskStatus := Some PENDING_snapshot\<rparr>)"
    using assms d dd by (simp add: submit_try_def dot_def opt_prop_def)
  then show ?thesis
    by (simp add: startAIProcessing_def onAiStateChange_def no_updates_def PENDING_snapshot_def)
qed

text \<open>
  The theorem at the response \<^verbatim>\<open>{success:true, data:{task_id:"abc123"}}\<close> with status
  200.
\<close>

theorem successful_submission_pending_witness:
  "response_ok \<lparr>resp_status = 200, resp_json = Inr (JObj [(''success'', JBool True),
       (''data'', JObj [(''task_id'', JStr ''abc123'')])])\<rparr>
   \<and> startAIProcessing decimal_engine
       (FetchResolved \<lparr>resp_status = 200, resp_json = Inr (JObj [(''success'', JBool True),
          (''data'', JObj [(''task_id'', JStr ''abc123'')])])\<rparr>)
       \<lparr>runAI = True, aiTaskId = JNull, aiTaskStatus = JNull, aiError = None\<rparr>
     = \<lparr>runAI = True, aiTaskId = JStr ''abc123'',
        aiTaskStatus = JObj [(''status'', JStr ''PENDING''), (''progress'', JNum 0)],
        aiError = None\<rparr>"
  (is "response_ok ?r \<and> startAIProcessing _ _ ?s = _")
proof -
  let ?data = "JObj [(''success'', JBool True), (''data'', JObj [(''task_id'', JStr ''abc123'')])]"
  have ok: "response_ok ?r"
    by (simp add: response_ok_def)
  have body: "resp_json ?r = Inr ?data"
    by simp
  have succ: "get_prop ?data ''success'' = JBool True"
    by simp
  have tid: "get_prop (get_prop ?data ''data'') ''task_id'' = JStr ''abc123''"
    by simp
  have ne: "''abc123'' \<noteq> []"
    by simp
  from successful_submission_pending [OF ok body succ tid ne, of decimal_engine ?s] ok
  show ?thesis by simp
qed

subsection \<open>Turning the toggle off\<close>

lemma toggle_off_with_task:
  "truthy (aiTaskId s) \<Longrightarrow> \<not> checkbox_disabled s \<Longrightarrow>
     toggle_off s = \<lparr>runAI = False, aiTaskId = JNull, aiTaskStatus = JNull, aiError = None\<rparr>"
  by (simp add: toggle_off_def toggle_def start_or_reset_effect_def read_runAI_def
        read_aiTaskId_def or_null_def session_writes)

text \<open>
  C4. Turning the toggle off is to clear \<^verbatim>\<open>aiTaskId\<close>, \<^verbatim>\<open>aiTaskStatus\<close> and \<^verbatim>\<open>aiError\<close>
  from every prior session. The effect resets only a session that holds a task id
  (\<open>toggle_off_with_task\<close>, for a checkbox that is not disabled). From the
  session a failed submission leaves (toggle on, no task, error set), turning the
  toggle off leaves the error in place; and turning it on again then starts
  nothing, because the effect submits only without an error.
\<close>

theorem toggle_off_keeps_submission_error:
  "toggle_off \<lparr>runAI = True, aiTaskId = JNull, aiTaskStatus = JNull,
                aiError = Some ''HTTP error! status: 500''\<rparr>
   = \<lparr>runAI = False, aiTaskId = JNull, aiTaskStatus = JNull,
      aiError = Some ''HTTP error! status: 500''\<rparr>
   \<and> start_or_reset_effect
       (toggle True
         (toggle_off \<lparr>runAI = True, aiTaskId = JNull, aiTaskStatus = JNull,
                       aiError = Some ''HTTP error! status: 500''\<rparr>))
     = NothingToDo"
  by (simp add: toggle_off_def toggle_def start_or_reset_effect_def session_reads session_writes)

subsection \<open>The status indicator\<close>

lemma completed_without_visualization_indicator:
  "statusIndicator decimal_engine
     \<lparr>runAI = True, aiTaskId = JStr ''abc123'',
      aiTaskStatus = JObj [(''status'', JStr ''COMPLETED''), (''result'', JObj [])],
      aiError = None\<rparr>
   = Inr Empty"
  by (simp add: statusIndicator_def getStatusIndicator_def getVisualizationUrl_def session_reads)

text \<open>
  C5 (as amended). The indicator is \<^verbatim>\<open>error\<close> whenever the last known status is
  \<^verbatim>\<open>FAILED\<close>, and whenever a submission error is set unless the status is
  \<^verbatim>\<open>COMPLETED\<close> with a visualization address, where \<^verbatim>\<open>success\<close> comes first. An
  error always takes precedence over a pending indicator: the indicator is
  \<^verbatim>\<open>pending\<close> only without a \<^verbatim>\<open>FAILED\<close> status and without a submission error.
\<close>

theorem status_indicator_error:
  "getVisualizationUrl rt s = Inr visualizationUrl \<Longrightarrow>
     ((status_is s ''FAILED''
        \<or> (read_aiError s \<noteq> None \<and> \<not> (status_is s ''COMPLETED'' \<and> visualizationUrl \<noteq> None))
       \<longrightarrow> statusIndicator rt s = Inr Error)
      \<and> (statusIndicator rt s = Inr Pending
           \<longrightarrow> \<not> status_is s ''FAILED'' \<and> read_aiError s = None))"
  by (auto simp: statusIndicator_def getStatusIndicator_def status_is_def
           split: option.splits if_splits)

text \<open>
  The theorem at a session whose stale status is \<^verbatim>\<open>PENDING\<close> while a submission
  error is set: the indicator is \<^verbatim>\<open>error\<close>.
\<close>

theorem status_indicator_error_witness:
  "getVisualizationUrl decimal_engine
     \<lparr>runAI = True, aiTaskId = JStr ''abc123'', aiTaskStatus = PENDING_snapshot,
      aiError = Some ''Failed to fetch''\<rparr> = Inr None
   \<and> read_aiError
     \<lparr>runAI = True, aiTaskId = JStr ''abc123'', aiTaskStatus = PENDING_snapshot,
      aiError = Some ''Failed to fetch''\<rparr> \<noteq> None
   \<and> statusIndicator decimal_engine
     \<lparr>runAI = True, aiTaskId = JStr ''abc123'', aiTaskStatus = PENDING_snapshot,
      aiError = Some ''Failed to fetch''\<rparr> = Inr Error"
  (is "getVisualizationUrl _ ?s = _ \<and> _")
proof -
  have u: "getVisualizationUrl decimal_engine ?s = Inr None"
    by (simp add: getVisualizationUrl_def PENDING_snapshot_def session_reads)
  have e: "read_aiError ?s \<noteq> None"
    by (simp add: read_aiError_def)
  from status_indicator_error [OF u] e u show ?thesis by blast
qed

text \<open>
  The claim as stated fails at a session with a submission error set and a
  \<^verbatim>\<open>COMPLETED\<close> status whose visualization resolves: the indicator is \<^verbatim>\<open>success\<close>.
\<close>

theorem success_over_submission_error_counterexample:
  "statusIndicator decimal_engine
     \<lparr>runAI = True, aiTaskId = JStr ''abc123'',
      aiTaskStatus = JObj [(''status'', JStr ''COMPLETED''),
                           (''result'', JObj [(''visualization'',
                              JObj [(''visualization_path'', JStr ''/viz/abc123.mp4'')])])],
      aiError = Some ''Failed to start AI processing''\<rparr>
   = Inr Success"
  by (simp add: statusIndicator_def getStatusIndicator_def getVisualizationUrl_def session_reads)

subsection \<open>Deleting an annotation\<close>

text \<open>
  C10. For every annotation list and every id, \<^verbatim>\<open>handleDeleteAnnotation\<close> keeps, in
  order and unchanged, exactly the annotations whose id differs from the given one.
  When the annotation being edited has that id, editing is closed (\<^verbatim>\<open>isEditing\<close>
  false, no annotation being edited); otherwise the editing state is as before. The
  text being typed is untouched.
\<close>

theorem delete_annotation_frame:
  "annotations (handleDeleteAnnotation i st) = filter (\<lambda>ann. ann_id ann \<noteq> i) (annotations st)
   \<and> tempText (handleDeleteAnnotation i st) = tempText st
   \<and> (case editingAnnotation st of
        None \<Rightarrow> isEditing (handleDeleteAnnotation i st) = isEditing st
               \<and> editingAnnotation (handleDeleteAnnotation i st) = None
      | Some e \<Rightarrow>
          if ann_id e = i
          then isEditing (handleDeleteAnnotation i st) = False
               \<and> editingAnnotation (handleDeleteAnnotation i st) = None
          else isEditing (handleDeleteAnnotation i st) = isEditing st
               \<and> editingAnnotation (handleDeleteAnnotation i st) = Some e)"
  by (simp add: handleDeleteAnnotation_def Let_def split: option.splits)

text \<open>
  The theorem on two annotations, the first of them being edited and deleted.
\<close>

theorem delete_annotation_frame_witness:
  "annotations (handleDeleteAnnotation ''1700000000001''
     \<lparr>annotations =
        [\<lparr>ann_id = ''1700000000001'', ann_x = 25, ann_y = 40, ann_text = ''gripper'',
          ann_timestamp = 3\<rparr>,
         \<lparr>ann_id = ''1700000000002'', ann_x = 60, ann_y = 10, ann_text = ''cup'',
          ann_timestamp = (7::int)\<rparr>],
      isEditing = True,
      editingAnnotation =
        Some \<lparr>ann_id = ''1700000000001'', ann_x = 25, ann_y = 40, ann_text = ''gripper'',
              ann_timestamp = 3\<rparr>,
      tempText = ''gripper''\<rparr>)
   = [\<lparr>ann_id = ''1700000000002'', ann_x = 60, ann_y = 10, ann_text = ''cup'',
       ann_timestamp = 7\<rparr>]
   \<and> \<not> isEditing (handleDeleteAnnotation ''1700000000001''
     \<lparr>annotations =
        [\<lparr>ann_id = ''1700000000001'', ann_x = 25, ann_y = 40, ann_text = ''gripper'',
          ann_timestamp = 3\<rparr>,
         \<lparr>ann_id = ''1700000000002'', ann_x = 60, ann_y = 10, ann_text = ''cup'',
          ann_timestamp = (7::int)\<rparr>],
      isEditing = True,
      editingAnnotation =
        Some \<lparr>ann_id = ''1700000000001'', ann_x = 25, ann_y = 40, ann_text = ''gripper'',
              ann_timestamp = 3\<rparr>,
      tempText = ''gripper''\<rparr>)"
  (is "annotations (handleDeleteAnnotation ?i ?st) = _ \<and> _")
proof -
  have e: "editingAnnotation ?st
           = Some \<lparr>ann_id = ''1700000000001'', ann_x = 25, ann_y = 40, ann_text = ''gripper'',
                   ann_timestamp = 3\<rparr>"
    by simp
  from delete_annotation_frame [of ?i ?st] show ?thesis
    unfolding e by simp
qed

subsection \<open>The server-relative video path\<close>

text \<open>
  C8. For every scenarioId, sceneId and episodeId, building the playback path in
  \<^verbatim>\<open>handleEpisodeClick\<close> and stripping the routing prefix with
  \<^verbatim>\<open>getVideoRelativePath\<close> gives back scenarioId/sceneId/episodeId. The path starts
  with the prefix, so the first occurrence that \<^verbatim>\<open>replace\<close> removes is the leading
  one, whatever the three identifiers contain; in particular for identifiers without
  the substring \<^verbatim>\<open>/video/\<close>.
\<close>

theorem video_relative_path_roundtrip:
  "getVideoRelativePath (episodePath (handleEpisodeClick scenario scene episode))
     = scenario @ ''/'' @ scene @ ''/'' @ episode"
  unfolding getVideoRelativePath_def handleEpisodeClick_def
  using replace_first_prefix [of "''/video/''" "''''" "scenario @ ''/'' @ scene @ ''/'' @ episode"]
  by simp

end
